theory Spec2Isabelle
  imports Complex_Main "HOL-Library.AList"
begin

section \<open>Python values and builtins used by the interpreter\<close>

text \<open>
  The interpreter of \<^verbatim>\<open>Main-Parser-1.0.py\<close> (class \<^verbatim>\<open>SPiDInterpreter\<close>) works on
  Python strings and floats.  A value is a float or a string; the null keyword is the
  string \<^verbatim>\<open>"NULL"\<close>.  Strings are lists of 8-bit characters, so \<^verbatim>\<open>upper\<close>,
  \<^verbatim>\<open>strip\<close> and the regular-expression classes are the ASCII ones.
\<close>

datatype pyerr = IndexError | ValueError | TypeError | AttributeError | OverflowError | EOFError

datatype 'f val = Num 'f | Str string

text \<open>
  Python's \<^verbatim>\<open>float\<close> type and the builtins \<^verbatim>\<open>float(str)\<close>, \<^verbatim>\<open>int(str)\<close> and
  \<^verbatim>\<open>int(float)\<close> belong to the language, not to the repository.  They are a parameter of
  every definition: a record of operations over an arbitrary carrier \<open>'f\<close>.  A failed
  conversion (\<^verbatim>\<open>ValueError\<close>) is \<open>None\<close>; \<^verbatim>\<open>int(float)\<close> can also raise
  \<^verbatim>\<open>OverflowError\<close>.  Nothing is assumed about the operations.
\<close>

record 'f pynum =
  float_of_str :: "string \<Rightarrow> 'f option"
  int_of_str :: "string \<Rightarrow> int option"
  int_of_float :: "'f \<Rightarrow> pyerr + int"
  fzero :: 'f
  fone :: 'f
  fadd :: "'f \<Rightarrow> 'f \<Rightarrow> 'f"
  fsub :: "'f \<Rightarrow> 'f \<Rightarrow> 'f"
  fmul :: "'f \<Rightarrow> 'f \<Rightarrow> 'f"
  fdiv :: "'f \<Rightarrow> 'f \<Rightarrow> 'f"
  fgt :: "'f \<Rightarrow> 'f \<Rightarrow> bool"
  flt :: "'f \<Rightarrow> 'f \<Rightarrow> bool"
  feq :: "'f \<Rightarrow> 'f \<Rightarrow> bool"

text \<open>\<^verbatim>\<open>float(v)\<close> and \<^verbatim>\<open>int(v)\<close> for a value that is a float or a string.\<close>

definition py_float :: "'f pynum \<Rightarrow> 'f val \<Rightarrow> pyerr + 'f" where
  "py_float fl v =
     (case v of
        Num x \<Rightarrow> Inr x
      | Str t \<Rightarrow> (case float_of_str fl t of None \<Rightarrow> Inl ValueError | Some x \<Rightarrow> Inr x))"

definition py_int :: "'f pynum \<Rightarrow> 'f val \<Rightarrow> pyerr + int" where
  "py_int fl v =
     (case v of
        Num x \<Rightarrow> int_of_float fl x
      | Str t \<Rightarrow> (case int_of_str fl t of None \<Rightarrow> Inl ValueError | Some i \<Rightarrow> Inr i))"

subsection \<open>String methods\<close>

abbreviation dq :: char where "dq \<equiv> CHR 0x22"
abbreviation backslash :: char where "backslash \<equiv> CHR 0x5C"

definition whitespace :: "char list" where
  "whitespace = [CHR 0x20, CHR 0x09, CHR 0x0A, CHR 0x0B, CHR 0x0C, CHR 0x0D,
                 CHR 0x1C, CHR 0x1D, CHR 0x1E, CHR 0x1F]"

definition is_space :: "char \<Rightarrow> bool" where
  "is_space c = (c \<in> set whitespace)"

definition strip :: "string \<Rightarrow> string" where
  "strip t = rev (dropWhile is_space (rev (dropWhile is_space t)))"

definition startswith :: "string \<Rightarrow> string \<Rightarrow> bool" where
  "startswith t p = (take (length p) t = p)"

definition endswith :: "string \<Rightarrow> string \<Rightarrow> bool" where
  "endswith t p = (length p \<le> length t \<and> drop (length t - length p) t = p)"

definition upper_char :: "char \<Rightarrow> char" where
  "upper_char c =
     (case map_of (zip ''abcdefghijklmnopqrstuvwxyz'' ''ABCDEFGHIJKLMNOPQRSTUVWXYZ'') c of
        Some u \<Rightarrow> u
      | None \<Rightarrow> c)"

definition upper :: "string \<Rightarrow> string" where
  "upper t = map upper_char t"

text \<open>\<^verbatim>\<open>' '.join(xs)\<close>.\<close>

fun join :: "string list \<Rightarrow> string" where
  "join [] = []"
| "join [x] = x"
| "join (x # y # ys) = x @ CHR '' '' # join (y # ys)"

text \<open>\<^verbatim>\<open>t[1:-1]\<close> on a string of length at least one.\<close>

definition inner :: "string \<Rightarrow> string" where
  "inner t = butlast (tl t)"

text \<open>\<^verbatim>\<open>t.split(c, 1)\<close>: the part before the first \<open>c\<close>, and the part after it when
  \<open>c\<close> occurs.\<close>

definition split1 :: "char \<Rightarrow> string \<Rightarrow> string \<times> string option" where
  "split1 c t =
     (takeWhile (\<lambda>x. x \<noteq> c) t,
      if c \<in> set t then Some (tl (dropWhile (\<lambda>x. x \<noteq> c) t)) else None)"

section \<open>Interpreter state\<close>

text \<open>What the interpreter prints, kept structured: a printed value, or one of the
  diagnostics of the source with the values it interpolates.\<close>

datatype 'f event =
    Printed "'f val"
  | InvalidDeclarationFormat string
  | InvalidDeclaration string
  | UnknownCommand string
  | NoHandler string
  | PrintNoContent string
  | ArgumentCountError string nat nat
  | ArgumentError string pyerr
  | ErrorExecuting string pyerr
  | IfRequiresNumeric
  | InvalidCondition string
  | LogicRequiresNumeric
  | UnknownGate string
  | ArithRequiresNumeric
  | DivisionByZero
  | UnknownOperation string
  | UndefinedVariable "'f val"
  | InvalidPrintFlag "'f val"
  | PrintError pyerr
  | InvalidBool "'f val"
  | JumpNoScript
  | JumpOutOfBounds int
  | JumpInvalid "'f val"
  | JumpError pyerr
  | Echo nat string

record 'f interp =
  variables :: "'f val \<rightharpoonup> 'f val"
  ram :: "'f val \<rightharpoonup> 'f val"
  script_lines :: "string list option"
  program_counter :: nat
  stdout :: "'f event list"

definition emit :: "'f event \<Rightarrow> 'f interp \<Rightarrow> 'f interp" where
  "emit e s = s\<lparr>stdout := stdout s @ [e]\<rparr>"

section \<open>Command registry: \<^verbatim>\<open>parse_SPiD_definition\<close>\<close>

record command_def =
  pattern :: string
  handler :: "string option"
  arg_count :: nat

text \<open>The grammar text of the source, as \<^verbatim>\<open>SPiD_definition.split('\n')\<close> yields it.\<close>

definition SPiD_definition :: "string list" where
  "SPiD_definition =
    ['''',
     ''        main.spid<'',
     ''        TYPE=SPiD'',
     '''',
     ''        # ARITHMETIC'',
     ''        ADD (VAR,VAL) (VAR,VAL) (VAR) [CMD=ARITH_ADD]'',
     ''        SUB (VAR,VAL) (VAR,VAL) (VAR) [CMD=ARITH_SUB]'',
     ''        MULT (VAR,VAL) (VAR,VAL) (VAR) [CMD=ARITH_MULT]'',
     ''        DIVS (VAR,VAL) (VAR,VAL) (VAR) [CMD=ARITH_DIV]'',
     '''',
     ''        # LOGIC'',
     ''        IF (VAR,VAL) (VAR,VAL) (HIGH,LOW,EQUAL) (THEN,ELSE) (SCRIPT) [CMD=CMP]'',
     ''        BOOL (BIN) (VAR) [CMD=BOOL_SET]'',
     ''        AND (VAR) (VAR) (VAR) [CMD=LOGIC_AND]'',
     ''        OR (VAR) (VAR) (VAR) [CMD=LOGIC_OR]'',
     ''        NOR (VAR) (VAR) (VAR) [CMD=LOGIC_NOR]'',
     ''        XNOR (VAR) (VAR) (VAR) [CMD=LOGIC_XNOR]'',
     ''        XOR (VAR) (VAR) (VAR) [CMD=LOGIC_XOR]'',
     '''',
     ''        # PRINT'',
     ''        PRINT (1,0) (VAR,TXT) [CMD=PRINT_CMD]'',
     '''',
     ''        # INPUT'',
     ''        INPUT (VAR) [CMD=INPUT_CMD]'',
     '''',
     ''        # PYTHON'',
     ''        PYTHON (TXT) [CMD=PYTHON_CMD]'',
     '''',
     ''        # CONTROL FLOW'',
     ''        JUMP (VAR,VAL) [CMD=JUMP_CMD]'',
     '''',
     ''        # FILE SYSTEM'',
     ''        ET (TXT) [CMD=CD_CMD]'',
     ''        LI (BIN) (TXT) [CMD=LS_CMD]'',
     '''',
     ''        # NETWORK (New commands)'',
     ''        # UPDATED: Added (VAR,TXT) for language_val as the 5th argument'',
     ''        #           The last two arguments shifted position.'',
     ''        # FCH (url) (raw_response_var) (client_agent) (format_val) (language_val) (decode_type) (decoded_output_var)'',
     ''        FCH (VAR,TXT) (VAR) (VAR,TXT) (VAR,TXT) (VAR,TXT) (TXT) (VAR) [CMD=NETWORK_FETCH]'',
     ''        FETCH (VAR,TXT) (VAR) (VAR,TXT) (VAR,TXT) (VAR,TXT) (TXT) (VAR) [CMD=NETWORK_FETCH] # Alias for FCH'',
     '''',
     ''        END'',
     ''        '']"

text \<open>The character classes \<^verbatim>\<open>\w\<close> and \<^verbatim>\<open>\s\<close> of the two regular expressions.\<close>

definition is_word :: "char \<Rightarrow> bool" where
  "is_word c =
     (c \<in> set ''abcdefghijklmnopqrstuvwxyzABCDEFGHIJKLMNOPQRSTUVWXYZ0123456789_'')"

text \<open>
  \<^verbatim>\<open>(?:\s*\[CMD=(\w+)\])?$\<close>, the tag alternative: the rest of the line is optional
  white space, \<^verbatim>\<open>[CMD=\<close>, a word and \<^verbatim>\<open>]\<close>, up to the end of the line.
\<close>

definition handler_tag :: "string \<Rightarrow> string option" where
  "handler_tag t =
     (let u = dropWhile is_space t in
      if startswith u ''[CMD='' then
        (let w = takeWhile is_word (drop 5 u); r = dropWhile is_word (drop 5 u) in
         if w \<noteq> [] \<and> r = '']'' then Some w else None)
      else None)"

text \<open>
  \<^verbatim>\<open>(.+?)\<close> followed by the optional tag and \<^verbatim>\<open>$\<close>: the group is extended one character
  at a time until the rest is a handler tag or empty.
\<close>

fun lazy_body :: "string \<Rightarrow> string \<Rightarrow> string \<times> string option" where
  "lazy_body acc [] = (acc, None)"
| "lazy_body acc (c # cs) =
     (case handler_tag (c # cs) of
        Some h \<Rightarrow> (acc, Some h)
      | None \<Rightarrow> lazy_body (acc @ [c]) cs)"

text \<open>
  \<^verbatim>\<open>re.match(r'^(\w+)\s+(.+?)(?:\s*\[CMD=(\w+)\])?$', line)\<close> on a line without newline:
  the three groups of the match, if there is one.  The greedy \<^verbatim>\<open>\w+\<close> and \<^verbatim>\<open>\s+\<close> take
  all they can; only when nothing is left for \<^verbatim>\<open>.+?\<close> does \<^verbatim>\<open>\s+\<close> give back its last
  character.
\<close>

definition match_clause :: "string \<Rightarrow> (string \<times> string \<times> string option) option" where
  "match_clause line =
     (let name = takeWhile is_word line;
          r1 = dropWhile is_word line;
          r2 = dropWhile is_space r1
      in if name = [] \<or> r1 = [] \<or> \<not> is_space (hd r1) then None
         else (case r2 of
                 c # cs \<Rightarrow> (case lazy_body [c] cs of (body, tag) \<Rightarrow> Some (name, body, tag))
               | [] \<Rightarrow> if 2 \<le> length r1 then Some (name, [last r1], None) else None))"

text \<open>\<^verbatim>\<open>len(re.findall(r'\(([^)]+)\)', pattern))\<close>: the non-overlapping matches, from the
  left.\<close>

function count_groups :: "string \<Rightarrow> nat" where
  "count_groups [] = 0"
| "count_groups (c # cs) =
     (if c = CHR ''('' \<and> takeWhile (\<lambda>x. x \<noteq> CHR '')'') cs \<noteq> []
         \<and> dropWhile (\<lambda>x. x \<noteq> CHR '')'') cs \<noteq> []
      then Suc (count_groups (tl (dropWhile (\<lambda>x. x \<noteq> CHR '')'') cs)))
      else count_groups cs)"
  by pat_completeness auto
termination
proof (relation "measure length")
  fix c :: char and cs :: string
  assume "c = CHR ''('' \<and> takeWhile (\<lambda>x. x \<noteq> CHR '')'') cs \<noteq> []
         \<and> dropWhile (\<lambda>x. x \<noteq> CHR '')'') cs \<noteq> []"
  have "length (dropWhile (\<lambda>x. x \<noteq> CHR '')'') cs) \<le> length cs"
    by (rule length_dropWhile_le)
  then have "length (tl (dropWhile (\<lambda>x. x \<noteq> CHR '')'') cs)) \<le> length cs"
    by simp
  then show "(tl (dropWhile (\<lambda>x. x \<noteq> CHR '')'') cs), c # cs) \<in> measure length"
    by simp
qed simp_all

fun parse_lines ::
  "string list \<Rightarrow> bool \<Rightarrow> (string \<times> command_def) list \<Rightarrow> (string \<times> command_def) list" where
  "parse_lines [] in_commands commands = commands"
| "parse_lines (raw # rest) in_commands commands =
     (let line = strip raw in
      if startswith line ''main.spid<'' then parse_lines rest True commands
      else if startswith line ''END'' then commands
      else if \<not> in_commands \<or> line = [] then parse_lines rest in_commands commands
      else
        (let line = (if CHR ''#'' \<in> set line then strip (fst (split1 CHR ''#'' line)) else line)
         in if line = [] then parse_lines rest in_commands commands
            else (case match_clause line of
                    Some (name, body, tag) \<Rightarrow>
                      parse_lines rest in_commands
                        (AList.update (upper name)
                           \<lparr>pattern = strip body, handler = tag,
                            arg_count = count_groups (strip body)\<rparr> commands)
                  | None \<Rightarrow> parse_lines rest in_commands commands)))"

definition parse_definition_text :: "string list \<Rightarrow> (string \<times> command_def) list" where
  "parse_definition_text text_lines = parse_lines text_lines False []"

definition parse_SPiD_definition :: "(string \<times> command_def) list" where
  "parse_SPiD_definition = parse_definition_text SPiD_definition"

section \<open>Value resolver: \<^verbatim>\<open>parse_value\<close>\<close>

definition parse_value :: "'f pynum \<Rightarrow> 'f interp \<Rightarrow> string \<Rightarrow> 'f val" where
  "parse_value fl s token =
     (if startswith token [dq] \<and> endswith token [dq] then Str (inner token)
      else case float_of_str fl token of
        Some x \<Rightarrow> Num x
      | None \<Rightarrow>
          if token = ''0'' then Num (fzero fl)
          else if token = ''1'' then Num (fone fl)
          else if upper token = ''NULL'' then Str ''NULL''
          else (case variables s (Str token) of
                  Some v \<Rightarrow> v
                | None \<Rightarrow> Str token))"

section \<open>Tokenizer: \<^verbatim>\<open>tokenize\<close>\<close>

fun tokenize_loop :: "string \<Rightarrow> string list \<Rightarrow> string \<Rightarrow> bool \<Rightarrow> bool \<Rightarrow> string list" where
  "tokenize_loop [] tokens current in_quotes escape =
     (if current \<noteq> [] then tokens @ [current] else tokens)"
| "tokenize_loop (char # rest) tokens current in_quotes escape =
     (if escape then tokenize_loop rest tokens (current @ [char]) in_quotes False
      else if char = backslash then tokenize_loop rest tokens current in_quotes True
      else if char = dq then tokenize_loop rest tokens (current @ [char]) (\<not> in_quotes) escape
      else if char = CHR '' '' \<and> \<not> in_quotes then
        (if current \<noteq> [] then tokenize_loop rest (tokens @ [current]) [] in_quotes escape
         else tokenize_loop rest tokens current in_quotes escape)
      else tokenize_loop rest tokens (current @ [char]) in_quotes escape)"

definition tokenize :: "string \<Rightarrow> string list" where
  "tokenize line = tokenize_loop line [] [] False False"


section \<open>Handlers\<close>

subsection \<open>Logic gates\<close>

definition handle_logic_gate ::
  "'f pynum \<Rightarrow> 'f val \<Rightarrow> 'f val \<Rightarrow> 'f val \<Rightarrow> string \<Rightarrow> 'f interp \<Rightarrow> 'f interp" where
  "handle_logic_gate fl in1 in2 out gate_type s =
     (case py_float fl in1 of
        Inl _ \<Rightarrow> emit LogicRequiresNumeric s
      | Inr x1 \<Rightarrow>
         (case py_float fl in2 of
            Inl _ \<Rightarrow> emit LogicRequiresNumeric s
          | Inr x2 \<Rightarrow>
             (let val1 = (\<not> feq fl x1 (fzero fl));
                  val2 = (\<not> feq fl x2 (fzero fl));
                  store = (\<lambda>result.
                     s\<lparr>variables := (variables s)(out \<mapsto> Num (if result then fone fl else fzero fl))\<rparr>)
              in if gate_type = ''AND'' then store (val1 \<and> val2)
                 else if gate_type = ''OR'' then store (val1 \<or> val2)
                 else if gate_type = ''NOR'' then store (\<not> (val1 \<or> val2))
                 else if gate_type = ''XNOR'' then store (val1 = val2)
                 else if gate_type = ''XOR'' then store (val1 \<noteq> val2)
                 else emit (UnknownGate gate_type) s)))"

definition handle_logic_and :: "'f pynum \<Rightarrow> 'f val \<Rightarrow> 'f val \<Rightarrow> 'f val \<Rightarrow> 'f interp \<Rightarrow> 'f interp" where
  "handle_logic_and fl in1 in2 out s = handle_logic_gate fl in1 in2 out ''AND'' s"

definition handle_logic_or :: "'f pynum \<Rightarrow> 'f val \<Rightarrow> 'f val \<Rightarrow> 'f val \<Rightarrow> 'f interp \<Rightarrow> 'f interp" where
  "handle_logic_or fl in1 in2 out s = handle_logic_gate fl in1 in2 out ''OR'' s"

definition handle_logic_nor :: "'f pynum \<Rightarrow> 'f val \<Rightarrow> 'f val \<Rightarrow> 'f val \<Rightarrow> 'f interp \<Rightarrow> 'f interp" where
  "handle_logic_nor fl in1 in2 out s = handle_logic_gate fl in1 in2 out ''NOR'' s"

definition handle_logic_xnor :: "'f pynum \<Rightarrow> 'f val \<Rightarrow> 'f val \<Rightarrow> 'f val \<Rightarrow> 'f interp \<Rightarrow> 'f interp" where
  "handle_logic_xnor fl in1 in2 out s = handle_logic_gate fl in1 in2 out ''XNOR'' s"

definition handle_logic_xor :: "'f pynum \<Rightarrow> 'f val \<Rightarrow> 'f val \<Rightarrow> 'f val \<Rightarrow> 'f interp \<Rightarrow> 'f interp" where
  "handle_logic_xor fl in1 in2 out s = handle_logic_gate fl in1 in2 out ''XOR'' s"

subsection \<open>Arithmetic\<close>

definition handle_arith ::
  "'f pynum \<Rightarrow> 'f val \<Rightarrow> 'f val \<Rightarrow> 'f val \<Rightarrow> string \<Rightarrow> 'f interp \<Rightarrow> 'f interp" where
  "handle_arith fl a b out op s =
     (case py_float fl a of
        Inl _ \<Rightarrow> emit ArithRequiresNumeric s
      | Inr a_val \<Rightarrow>
         (case py_float fl b of
            Inl _ \<Rightarrow> emit ArithRequiresNumeric s
          | Inr b_val \<Rightarrow>
             (let store = (\<lambda>result. s\<lparr>variables := (variables s)(out \<mapsto> Num result)\<rparr>)
              in if op = ''ADD'' then store (fadd fl a_val b_val)
                 else if op = ''SUB'' then store (fsub fl a_val b_val)
                 else if op = ''MULT'' then store (fmul fl a_val b_val)
                 else if op = ''DIV'' then
                   (if feq fl b_val (fzero fl) then emit DivisionByZero s
                    else store (fdiv fl a_val b_val))
                 else emit (UnknownOperation op) s)))"

definition handle_arith_add :: "'f pynum \<Rightarrow> 'f val \<Rightarrow> 'f val \<Rightarrow> 'f val \<Rightarrow> 'f interp \<Rightarrow> 'f interp" where
  "handle_arith_add fl a b out s = handle_arith fl a b out ''ADD'' s"

definition handle_arith_sub :: "'f pynum \<Rightarrow> 'f val \<Rightarrow> 'f val \<Rightarrow> 'f val \<Rightarrow> 'f interp \<Rightarrow> 'f interp" where
  "handle_arith_sub fl a b out s = handle_arith fl a b out ''SUB'' s"

definition handle_arith_mult :: "'f pynum \<Rightarrow> 'f val \<Rightarrow> 'f val \<Rightarrow> 'f val \<Rightarrow> 'f interp \<Rightarrow> 'f interp" where
  "handle_arith_mult fl a b out s = handle_arith fl a b out ''MULT'' s"

definition handle_arith_div :: "'f pynum \<Rightarrow> 'f val \<Rightarrow> 'f val \<Rightarrow> 'f val \<Rightarrow> 'f interp \<Rightarrow> 'f interp" where
  "handle_arith_div fl a b out s = handle_arith fl a b out ''DIV'' s"

subsection \<open>Print, boolean set, jump\<close>

definition handle_print :: "'f pynum \<Rightarrow> 'f val \<Rightarrow> 'f val \<Rightarrow> 'f interp \<Rightarrow> 'f interp" where
  "handle_print fl flag content_raw s =
     (case py_int fl flag of
        Inl e \<Rightarrow> emit (PrintError e) s
      | Inr flag_int \<Rightarrow>
          if flag_int = 0 then
            (case variables s content_raw of
               Some v \<Rightarrow> emit (Printed v) s
             | None \<Rightarrow> emit (UndefinedVariable content_raw) s)
          else if flag_int = 1 then
            emit (Printed (case content_raw of
                             Str t \<Rightarrow> if startswith t [dq] \<and> endswith t [dq] then Str (inner t)
                                      else Str t
                           | Num x \<Rightarrow> Num x)) s
          else emit (InvalidPrintFlag flag) s)"

definition handle_bool_set :: "'f pynum \<Rightarrow> 'f val \<Rightarrow> 'f val \<Rightarrow> 'f interp \<Rightarrow> 'f interp" where
  "handle_bool_set fl value var s =
     (case py_float fl value of
        Inl _ \<Rightarrow> emit (InvalidBool value) s
      | Inr val \<Rightarrow>
          if feq fl val (fzero fl) \<or> feq fl val (fone fl)
          then s\<lparr>variables := (variables s)(var \<mapsto> Num val)\<rparr>
          else emit (InvalidBool value) s)"

definition handle_jump :: "'f pynum \<Rightarrow> 'f val \<Rightarrow> 'f interp \<Rightarrow> 'f interp" where
  "handle_jump fl target_line s =
     (case py_int fl target_line of
        Inl e \<Rightarrow> if e = ValueError then emit (JumpInvalid target_line) s else emit (JumpError e) s
      | Inr target_line_int \<Rightarrow>
         (case script_lines s of
            None \<Rightarrow> emit JumpNoScript s
          | Some lines \<Rightarrow>
             (let jump_to_index = target_line_int - 1
              in if 0 \<le> jump_to_index \<and> jump_to_index < int (length lines)
                 then s\<lparr>program_counter := nat jump_to_index\<rparr>
                 else emit (JumpOutOfBounds target_line_int) s)))"

subsection \<open>Handler table\<close>

text \<open>
  The handlers for \<^verbatim>\<open>PYTHON\<close>, \<^verbatim>\<open>INPUT\<close>, \<^verbatim>\<open>ET\<close>, \<^verbatim>\<open>LI\<close> and \<^verbatim>\<open>FCH\<close>/\<^verbatim>\<open>FETCH\<close> act on
  the world outside the interpreter (code execution, standard input, the file system, the
  network).  They are a parameter \<open>ext\<close>: from the handler's name and arguments to a
  state transformer that may raise.
\<close>

type_synonym 'f ext = "string \<Rightarrow> 'f val list \<Rightarrow> 'f interp \<Rightarrow> 'f interp \<times> pyerr option"

definition handlers :: "string list" where
  "handlers = [''CMP'', ''LOGIC_AND'', ''LOGIC_OR'', ''LOGIC_NOR'', ''LOGIC_XNOR'', ''LOGIC_XOR'',
     ''ARITH_ADD'', ''ARITH_SUB'', ''ARITH_MULT'', ''ARITH_DIV'', ''PRINT_CMD'', ''BOOL_SET'',
     ''PYTHON_CMD'', ''JUMP_CMD'', ''INPUT_CMD'', ''CD_CMD'', ''LS_CMD'', ''NETWORK_FETCH'']"

text \<open>The numbers of positional arguments the external handlers accept;
  \<^verbatim>\<open>handle_ls\<close> has a default for its second parameter.\<close>

definition ext_accepts :: "string \<Rightarrow> nat \<Rightarrow> bool" where
  "ext_accepts handler_name n =
     (if handler_name = ''PYTHON_CMD'' \<or> handler_name = ''INPUT_CMD'' \<or> handler_name = ''CD_CMD''
      then n = 1
      else if handler_name = ''LS_CMD'' then n = 1 \<or> n = 2
      else if handler_name = ''NETWORK_FETCH'' then n = 7
      else False)"

text \<open>
  \<^verbatim>\<open>self.handlers[handler_name](*parsed_args)\<close> for every handler but \<^verbatim>\<open>CMP\<close>: a call
  with a number of arguments the method does not accept raises \<^verbatim>\<open>TypeError\<close>.
\<close>

definition call_handler ::
  "'f pynum \<Rightarrow> 'f ext \<Rightarrow> string \<Rightarrow> 'f val list \<Rightarrow> 'f interp \<Rightarrow> 'f interp \<times> pyerr option" where
  "call_handler fl ext handler_name parsed_args s =
     (let three = (\<lambda>h. case parsed_args of
                          [x, y, z] \<Rightarrow> (h fl x y z s, None)
                        | _ \<Rightarrow> (s, Some TypeError));
          two = (\<lambda>h. case parsed_args of
                        [x, y] \<Rightarrow> (h fl x y s, None)
                      | _ \<Rightarrow> (s, Some TypeError));
          one = (\<lambda>h. case parsed_args of
                        [x] \<Rightarrow> (h fl x s, None)
                      | _ \<Rightarrow> (s, Some TypeError))
      in if handler_name = ''LOGIC_AND'' then three handle_logic_and
         else if handler_name = ''LOGIC_OR'' then three handle_logic_or
         else if handler_name = ''LOGIC_NOR'' then three handle_logic_nor
         else if handler_name = ''LOGIC_XNOR'' then three handle_logic_xnor
         else if handler_name = ''LOGIC_XOR'' then three handle_logic_xor
         else if handler_name = ''ARITH_ADD'' then three handle_arith_add
         else if handler_name = ''ARITH_SUB'' then three handle_arith_sub
         else if handler_name = ''ARITH_MULT'' then three handle_arith_mult
         else if handler_name = ''ARITH_DIV'' then three handle_arith_div
         else if handler_name = ''PRINT_CMD'' then two handle_print
         else if handler_name = ''BOOL_SET'' then two handle_bool_set
         else if handler_name = ''JUMP_CMD'' then one handle_jump
         else if ext_accepts handler_name (length parsed_args) then ext handler_name parsed_args s
         else (s, Some TypeError))"

section \<open>Dispatcher: \<^verbatim>\<open>execute_line\<close>\<close>

text \<open>\<^verbatim>\<open>xs[i]\<close> for \<open>i \<ge> 0\<close>: out of range raises \<^verbatim>\<open>IndexError\<close>.\<close>

definition item :: "'a list \<Rightarrow> nat \<Rightarrow> pyerr + 'a" where
  "item xs i = (if i < length xs then Inr (xs ! i) else Inl IndexError)"

text \<open>
  The declaration branch of \<^verbatim>\<open>execute_line\<close>, on a stripped line that starts with
  \<^verbatim>\<open><\<close> and ends with \<^verbatim>\<open>>\<close>.
\<close>

definition execute_declaration :: "'f pynum \<Rightarrow> string \<Rightarrow> 'f interp \<Rightarrow> 'f interp" where
  "execute_declaration fl line s =
     (let clean_line = strip (fst (split1 CHR ''#'' line))
      in if \<not> endswith clean_line ''>'' then emit (InvalidDeclarationFormat line) s
         else (case split1 CHR ''='' (inner clean_line) of
                 (var, Some val) \<Rightarrow>
                   s\<lparr>variables := (variables s)(Str (strip var) \<mapsto> parse_value fl s (strip val))\<rparr>
               | (var, None) \<Rightarrow> emit (InvalidDeclaration line) s))"

text \<open>
  The argument shaping of \<^verbatim>\<open>execute_line\<close> (the chain on \<^verbatim>\<open>cmd\<close> that fills
  \<^verbatim>\<open>parsed_args\<close>).  It runs before the \<^verbatim>\<open>try\<close>: an \<^verbatim>\<open>IndexError\<close> of
  \<^verbatim>\<open>raw_args[i]\<close> or an error of \<^verbatim>\<open>int(...)\<close> leaves \<^verbatim>\<open>execute_line\<close>.  The only
  output of this stage is the warning of \<^verbatim>\<open>PRINT\<close> without content.  The parameter
  \<open>expected\<close> is the local \<^verbatim>\<open>arg_count\<close> of the source.
\<close>

definition shape_args ::
  "'f pynum \<Rightarrow> string \<Rightarrow> nat \<Rightarrow> string list \<Rightarrow> 'f interp \<Rightarrow> pyerr + ('f interp \<times> 'f val list)" where
  "shape_args fl cmd expected raw_args s =
     (if cmd = ''PRINT'' then
        (case item raw_args 0 of
           Inl e \<Rightarrow> Inl e
         | Inr flag \<Rightarrow>
             if length raw_args > 1 then
               (case py_int fl (parse_value fl s flag) of
                  Inl e \<Rightarrow> Inl e
                | Inr n \<Rightarrow>
                    if n = 0 then Inr (s, [parse_value fl s flag, Str (raw_args ! 1)])
                    else Inr (s, [parse_value fl s flag, Str (join (tl raw_args))]))
             else Inr (emit (PrintNoContent flag) s, [parse_value fl s flag, Str []]))
      else if cmd = ''IF'' then
        (if length raw_args < expected - 1 then Inl IndexError
         else Inr (s, map (parse_value fl s) (take (expected - 1) raw_args)
                      @ [Str (join (if expected = 0
                                    then (if raw_args = [] then [] else [last raw_args])
                                    else drop (expected - 1) raw_args))]))
      else if cmd = ''PYTHON'' then Inr (s, [Str (join raw_args)])
      else if cmd = ''INPUT'' then
        (case item raw_args 0 of Inl e \<Rightarrow> Inl e | Inr name \<Rightarrow> Inr (s, [Str name]))
      else if cmd = ''ET'' then Inr (s, [Str (join raw_args)])
      else if cmd = ''LI'' then
        (case item raw_args 0 of
           Inl e \<Rightarrow> Inl e
         | Inr flag \<Rightarrow>
             Inr (s, [parse_value fl s flag,
                      Str (if length raw_args > 1 then join (tl raw_args) else [])]))
      else if cmd = ''FCH'' \<or> cmd = ''FETCH'' then
        (if length raw_args < 7 then Inl IndexError
         else Inr (s, [parse_value fl s (raw_args ! 0), Str (raw_args ! 1),
                       parse_value fl s (raw_args ! 2), parse_value fl s (raw_args ! 3),
                       parse_value fl s (raw_args ! 4), parse_value fl s (raw_args ! 5),
                       Str (raw_args ! 6)]
                      @ replicate (expected - 7) (Str ''NULL'')))
      else Inr (s, map (parse_value fl s) raw_args))"

text \<open>
  \<^verbatim>\<open>execute_line\<close> up to the call of the handler: either the line is finished (with the
  new state, and the exception that leaves \<^verbatim>\<open>execute_line\<close> if there is one), or the
  handler \<open>handler_name\<close> of command \<open>cmd\<close> is invoked on \<open>parsed_args\<close>.
  \<^verbatim>\<open>self.commands\<close> is set by the constructor to \<^verbatim>\<open>parse_SPiD_definition()\<close> and never
  assigned again.
\<close>

datatype 'f dispatched =
    Return "'f interp" "pyerr option"
  | Invoke string string "'f val list" "'f interp"

definition dispatch :: "'f pynum \<Rightarrow> string \<Rightarrow> 'f interp \<Rightarrow> 'f dispatched" where
  "dispatch fl raw_line s =
     (let line = strip raw_line
      in if line = [] then Return s None
         else if startswith line ''<'' \<and> endswith line ''>''
         then Return (execute_declaration fl line s) None
         else
           (let tokens = tokenize line
            in if tokens = [] then Return s None
               else
                 (let cmd = upper (hd tokens); raw_args = tl tokens
                  in case map_of parse_SPiD_definition cmd of
                       None \<Rightarrow> Return (emit (UnknownCommand cmd) s) None
                     | Some command_def \<Rightarrow>
                        (case handler command_def of
                           None \<Rightarrow> Return (emit (NoHandler cmd) s) None
                         | Some handler_name \<Rightarrow>
                             if handler_name = [] \<or> handler_name \<notin> set handlers
                             then Return (emit (NoHandler cmd) s) None
                             else
                               (case shape_args fl cmd (arg_count command_def) raw_args s of
                                  Inl e \<Rightarrow> Return s (Some e)
                                | Inr (s', parsed_args) \<Rightarrow>
                                    if length parsed_args \<noteq> arg_count command_def
                                    then Return (emit (ArgumentCountError cmd
                                                   (arg_count command_def) (length parsed_args)) s')
                                           None
                                    else Invoke cmd handler_name parsed_args s')))))"

text \<open>The \<^verbatim>\<open>except\<close> clauses around the handler call.\<close>

definition catch_handler :: "string \<Rightarrow> 'f interp \<times> pyerr option \<Rightarrow> 'f interp \<times> pyerr option" where
  "catch_handler cmd r =
     (case r of
        (s, None) \<Rightarrow> (s, None)
      | (s, Some e) \<Rightarrow>
          (if e = TypeError then emit (ArgumentError cmd e) s else emit (ErrorExecuting cmd e) s,
           None))"

text \<open>The chain of comparisons of \<^verbatim>\<open>handle_cmp\<close>: \<open>Some condition_met\<close>, or \<open>None\<close>
  when the \<^verbatim>\<open>else\<close> branch (``Invalid condition'') is taken.\<close>

definition cmp_condition :: "'f pynum \<Rightarrow> string \<Rightarrow> 'f \<Rightarrow> 'f \<Rightarrow> bool option" where
  "cmp_condition fl condition val1 val2 =
     (if condition = ''HIGH'' \<and> fgt fl val1 val2 then Some True
      else if condition = ''LOW'' \<and> flt fl val1 val2 then Some True
      else if condition = ''EQUAL'' \<and> feq fl val1 val2 then Some True
      else None)"


subsection \<open>The registry of the source\<close>

text \<open>The table that \<^verbatim>\<open>parse_SPiD_definition\<close> computes from the grammar text of the
  source: nineteen commands, each with a handler.\<close>

definition registry :: "(string \<times> command_def) list" where
  "registry =
     [(''ADD'', \<lparr>pattern = ''(VAR,VAL) (VAR,VAL) (VAR)'', handler = Some ''ARITH_ADD'', arg_count = 3\<rparr>),
      (''SUB'', \<lparr>pattern = ''(VAR,VAL) (VAR,VAL) (VAR)'', handler = Some ''ARITH_SUB'', arg_count = 3\<rparr>),
      (''MULT'', \<lparr>pattern = ''(VAR,VAL) (VAR,VAL) (VAR)'', handler = Some ''ARITH_MULT'', arg_count = 3\<rparr>),
      (''DIVS'', \<lparr>pattern = ''(VAR,VAL) (VAR,VAL) (VAR)'', handler = Some ''ARITH_DIV'', arg_count = 3\<rparr>),
      (''IF'', \<lparr>pattern = ''(VAR,VAL) (VAR,VAL) (HIGH,LOW,EQUAL) (THEN,ELSE) (SCRIPT)'',
                handler = Some ''CMP'', arg_count = 5\<rparr>),
      (''BOOL'', \<lparr>pattern = ''(BIN) (VAR)'', handler = Some ''BOOL_SET'', arg_count = 2\<rparr>),
      (''AND'', \<lparr>pattern = ''(VAR) (VAR) (VAR)'', handler = Some ''LOGIC_AND'', arg_count = 3\<rparr>),
      (''OR'', \<lparr>pattern = ''(VAR) (VAR) (VAR)'', handler = Some ''LOGIC_OR'', arg_count = 3\<rparr>),
      (''NOR'', \<lparr>pattern = ''(VAR) (VAR) (VAR)'', handler = Some ''LOGIC_NOR'', arg_count = 3\<rparr>),
      (''XNOR'', \<lparr>pattern = ''(VAR) (VAR) (VAR)'', handler = Some ''LOGIC_XNOR'', arg_count = 3\<rparr>),
      (''XOR'', \<lparr>pattern = ''(VAR) (VAR) (VAR)'', handler = Some ''LOGIC_XOR'', arg_count = 3\<rparr>),
      (''PRINT'', \<lparr>pattern = ''(1,0) (VAR,TXT)'', handler = Some ''PRINT_CMD'', arg_count = 2\<rparr>),
      (''INPUT'', \<lparr>pattern = ''(VAR)'', handler = Some ''INPUT_CMD'', arg_count = 1\<rparr>),
      (''PYTHON'', \<lparr>pattern = ''(TXT)'', handler = Some ''PYTHON_CMD'', arg_count = 1\<rparr>),
      (''JUMP'', \<lparr>pattern = ''(VAR,VAL)'', handler = Some ''JUMP_CMD'', arg_count = 1\<rparr>),
      (''ET'', \<lparr>pattern = ''(TXT)'', handler = Some ''CD_CMD'', arg_count = 1\<rparr>),
      (''LI'', \<lparr>pattern = ''(BIN) (TXT)'', handler = Some ''LS_CMD'', arg_count = 2\<rparr>),
      (''FCH'', \<lparr>pattern = ''(VAR,TXT) (VAR) (VAR,TXT) (VAR,TXT) (VAR,TXT) (TXT) (VAR)'',
                 handler = Some ''NETWORK_FETCH'', arg_count = 7\<rparr>),
      (''FETCH'', \<lparr>pattern = ''(VAR,TXT) (VAR) (VAR,TXT) (VAR,TXT) (VAR,TXT) (TXT) (VAR)'',
                   handler = Some ''NETWORK_FETCH'', arg_count = 7\<rparr>)]"

lemma parse_SPiD_definition_registry: "parse_SPiD_definition = registry"
  by code_simp

declare parse_SPiD_definition_registry [code]

lemma registry_cmp:
  "map_of parse_SPiD_definition cmd = Some d \<Longrightarrow> handler d = Some ''CMP''
     \<Longrightarrow> cmd = ''IF'' \<and> arg_count d = 5"
  unfolding parse_SPiD_definition_registry registry_def
  by (auto split: if_splits)


subsection \<open>Tokens are shorter than the line\<close>

text \<open>The tokens of a line, with one separator each, fit into the line.  The sub-script
  that \<^verbatim>\<open>IF\<close> passes on is therefore strictly shorter than the line of the \<^verbatim>\<open>IF\<close>.\<close>

definition weight :: "string list \<Rightarrow> nat" where
  "weight ts = sum_list (map length ts) + length ts"

lemma weight_simps:
  "weight [] = 0" "weight (ts @ [t]) = weight ts + length t + 1"
  "weight (t # ts) = length t + 1 + weight ts"
  by (simp_all add: weight_def)

lemma tokenize_loop_weight:
  "weight (tokenize_loop l ts cur q e) \<le> weight ts + length cur + length l + 1"
proof (induction l arbitrary: ts cur q e)
  case Nil
  then show ?case by (simp add: weight_simps)
next
  case (Cons c l)
  have a: "weight (tokenize_loop l ts (cur @ [c]) q' e') \<le> weight ts + length cur + length (c # l) + 1"
    for q' e' using Cons [of ts "cur @ [c]" q' e'] by simp
  have b: "weight (tokenize_loop l ts cur q' e') \<le> weight ts + length cur + length (c # l) + 1"
    for q' e' using Cons [of ts cur q' e'] by simp
  have d: "weight (tokenize_loop l (ts @ [cur]) [] q' e') \<le> weight ts + length cur + length (c # l) + 1"
    for q' e' using Cons [of "ts @ [cur]" "[]" q' e'] by (simp add: weight_simps)
  show ?case
    unfolding tokenize_loop.simps using a b d by presburger
qed

lemma tokenize_loop_nonempty:
  "[] \<notin> set ts \<Longrightarrow> [] \<notin> set (tokenize_loop l ts cur q e)"
proof (induction l arbitrary: ts cur q e)
  case Nil
  then show ?case by simp
next
  case (Cons c l)
  have a: "[] \<notin> set (tokenize_loop l ts cur' q' e')" for cur' q' e'
    using Cons.IH [of ts cur' q' e'] Cons.prems by simp
  have d: "cur \<noteq> [] \<Longrightarrow> [] \<notin> set (tokenize_loop l (ts @ [cur]) [] q' e')" for q' e'
    using Cons.IH [of "ts @ [cur]" "[]" q' e'] Cons.prems by simp
  show ?case
    unfolding tokenize_loop.simps using a d by presburger
qed

lemma tokenize_weight: "weight (tokenize line) \<le> length line + 1"
  using tokenize_loop_weight [of line "[]" "[]" False False]
  by (simp add: tokenize_def weight_simps)

lemma tokenize_nonempty: "[] \<notin> set (tokenize line)"
  using tokenize_loop_nonempty [of "[]" line "[]" False False]
  by (simp add: tokenize_def)

lemma length_join_le: "length (join ts) \<le> weight ts"
  by (induction ts rule: join.induct) (simp_all add: weight_simps)

lemma weight_append: "weight (xs @ ys) = weight xs + weight ys"
  by (simp add: weight_def)

lemma weight_drop_le: "weight (drop n ts) \<le> weight ts"
  using weight_append [of "take n ts" "drop n ts"] by simp

lemma length_strip_le: "length (strip t) \<le> length t"
proof -
  have "length (strip t) \<le> length (dropWhile is_space t)"
    unfolding strip_def using length_dropWhile_le [of is_space "rev (dropWhile is_space t)"]
    by simp
  also have "\<dots> \<le> length t" by (rule length_dropWhile_le)
  finally show ?thesis .
qed

lemma join_tail_shorter:
  assumes "tokenize line \<noteq> []"
  shows "length (join (drop n (tl (tokenize line)))) < length line"
proof -
  obtain t ts where ts: "tokenize line = t # ts"
    using assms by (cases "tokenize line") auto
  then have "t \<noteq> []" using tokenize_nonempty [of line] by auto
  then have "1 \<le> length t" by (cases t) simp_all
  then have "weight ts + 2 \<le> weight (tokenize line)"
    by (simp add: ts weight_simps)
  moreover have "length (join (drop n ts)) \<le> weight ts"
    using length_join_le [of "drop n ts"] weight_drop_le [of n ts] by simp
  ultimately have "length (join (drop n ts)) + 2 \<le> length line + 1"
    using tokenize_weight [of line] by linarith
  then show ?thesis by (simp add: ts)
qed



subsection \<open>What the dispatcher hands to a handler\<close>

lemma dispatch_Invoke:
  assumes "dispatch fl raw_line s = Invoke cmd h parsed_args s'"
  shows "\<exists>command_def.
           tokenize (strip raw_line) \<noteq> []
         \<and> cmd = upper (hd (tokenize (strip raw_line)))
         \<and> map_of parse_SPiD_definition cmd = Some command_def
         \<and> handler command_def = Some h
         \<and> h \<in> set handlers
         \<and> shape_args fl cmd (arg_count command_def) (tl (tokenize (strip raw_line))) s
               = Inr (s', parsed_args)
         \<and> length parsed_args = arg_count command_def"
  using assms unfolding dispatch_def Let_def
  by (simp split: if_splits option.splits sum.splits prod.splits)

lemma shape_args_IF:
  "shape_args fl ''IF'' 5 raw_args s = Inr (s', parsed_args) \<Longrightarrow>
     parsed_args = map (parse_value fl s) (take 4 raw_args) @ [Str (join (drop 4 raw_args))]"
  unfolding shape_args_def by (auto split: if_splits)

lemma dispatch_cmp_script:
  assumes "dispatch fl line s = Invoke cmd ''CMP'' [a, b, c, d, e] s'"
  shows "\<exists>sub. e = Str sub \<and> length sub < length line"
proof -
  obtain command_def where
    tok: "tokenize (strip line) \<noteq> []" and
    reg: "map_of parse_SPiD_definition cmd = Some command_def"
         "handler command_def = Some ''CMP''" and
    sh: "shape_args fl cmd (arg_count command_def) (tl (tokenize (strip line))) s
           = Inr (s', [a, b, c, d, e])"
    using dispatch_Invoke [OF assms] by blast
  have "cmd = ''IF''" "arg_count command_def = 5"
    using registry_cmp [OF reg] by simp_all
  with sh have "[a, b, c, d, e] = map (parse_value fl s) (take 4 (tl (tokenize (strip line))))
        @ [Str (join (drop 4 (tl (tokenize (strip line)))))]"
    using shape_args_IF by metis
  then have "last [a, b, c, d, e] = Str (join (drop 4 (tl (tokenize (strip line)))))"
    by (metis last_snoc)
  then have e: "e = Str (join (drop 4 (tl (tokenize (strip line)))))" by simp
  have "length (join (drop 4 (tl (tokenize (strip line))))) < length (strip line)"
    by (rule join_tail_shorter [OF tok])
  then show ?thesis using e length_strip_le [of line] by simp
qed


subsection \<open>\<^verbatim>\<open>execute_line\<close> and \<^verbatim>\<open>handle_cmp\<close>\<close>

text \<open>
  \<^verbatim>\<open>handle_cmp\<close> calls \<^verbatim>\<open>execute_line\<close> on the sub-script, inside the \<^verbatim>\<open>try\<close> of the
  \<^verbatim>\<open>execute_line\<close> that called it.  The result of both is the new state and the
  exception that leaves the function, if any.
\<close>

function execute_line ::
    "'f pynum \<Rightarrow> 'f ext \<Rightarrow> string \<Rightarrow> 'f interp \<Rightarrow> 'f interp \<times> pyerr option"
  and handle_cmp ::
    "'f pynum \<Rightarrow> 'f ext \<Rightarrow> 'f val \<Rightarrow> 'f val \<Rightarrow> 'f val \<Rightarrow> 'f val \<Rightarrow> 'f val \<Rightarrow> 'f interp
       \<Rightarrow> 'f interp \<times> pyerr option"
where
  "execute_line fl ext line s =
     (case dispatch fl line s of
        Return s' e \<Rightarrow> (s', e)
      | Invoke cmd handler_name parsed_args s' \<Rightarrow>
          catch_handler cmd
            (if handler_name = ''CMP'' then
               (case parsed_args of
                  [val1, val2, condition, branch, script] \<Rightarrow>
                    handle_cmp fl ext val1 val2 condition branch script s'
                | _ \<Rightarrow> (s', Some TypeError))
             else call_handler fl ext handler_name parsed_args s'))"
| "handle_cmp fl ext val1 val2 condition branch script s =
     (case py_float fl val1 of
        Inl _ \<Rightarrow> (emit IfRequiresNumeric s, None)
      | Inr v1 \<Rightarrow>
         (case py_float fl val2 of
            Inl _ \<Rightarrow> (emit IfRequiresNumeric s, None)
          | Inr v2 \<Rightarrow>
             (case condition of
                Num _ \<Rightarrow> (s, Some AttributeError)
              | Str c \<Rightarrow>
                 (case branch of
                    Num _ \<Rightarrow> (s, Some AttributeError)
                  | Str b \<Rightarrow>
                     (case cmp_condition fl (upper c) v1 v2 of
                        None \<Rightarrow> (emit (InvalidCondition (upper c)) s, None)
                      | Some condition_met \<Rightarrow>
                          if (upper b = ''THEN'' \<and> condition_met)
                             \<or> (upper b = ''ELSE'' \<and> \<not> condition_met)
                          then (case script of
                                  Str sub \<Rightarrow> execute_line fl ext sub s
                                | Num _ \<Rightarrow> (s, Some AttributeError))
                          else (s, None))))))"
  by pat_completeness auto
termination
  by (relation "measure (\<lambda>x. case x of
            Inl (fl, ext, line, s) \<Rightarrow> 2 * length line
          | Inr (fl, ext, v1, v2, c, b, script, s) \<Rightarrow>
              (case script of Str sub \<Rightarrow> 2 * length sub + 1 | Num _ \<Rightarrow> 0))")
    (auto dest!: dispatch_cmp_script)

declare execute_line.simps [simp del] handle_cmp.simps [simp del]



section \<open>Execution engine: the script loop of \<^verbatim>\<open>run\<close>\<close>

text \<open>One iteration of the \<^verbatim>\<open>while\<close> loop, entered with
  \<^verbatim>\<open>program_counter < len(script_lines)\<close>.  An exception of \<^verbatim>\<open>execute_line\<close> is not
  caught by \<^verbatim>\<open>run\<close>.\<close>

definition run_step ::
  "'f pynum \<Rightarrow> 'f ext \<Rightarrow> string list \<Rightarrow> 'f interp \<Rightarrow> 'f interp \<times> pyerr option" where
  "run_step fl ext lines s =
     (let original_program_counter = program_counter s;
          line = lines ! program_counter s
      in case execute_line fl ext line (emit (Echo (program_counter s + 1) line) s) of
           (s', Some e) \<Rightarrow> (s', Some e)
         | (s', None) \<Rightarrow>
             (if program_counter s' = original_program_counter
              then s'\<lparr>program_counter := program_counter s' + 1\<rparr>
              else s',
              None))"

text \<open>The loop may run forever (a \<^verbatim>\<open>JUMP\<close> back): \<open>None\<close> is the run that does not
  return.\<close>

partial_function (option) run_loop ::
  "'f pynum \<Rightarrow> 'f ext \<Rightarrow> 'f interp \<Rightarrow> ('f interp \<times> pyerr option) option" where
  "run_loop fl ext s =
     (case script_lines s of
        None \<Rightarrow> Some (s, Some TypeError)
      | Some lines \<Rightarrow>
          if program_counter s < length lines then
            (case run_step fl ext lines s of
               (s', Some e) \<Rightarrow> Some (s', Some e)
             | (s', None) \<Rightarrow> run_loop fl ext s')
          else Some (s, None))"

declare run_loop.simps [code]

text \<open>The branch of \<^verbatim>\<open>run\<close> for a loaded, non-empty script.  The other branch, the
  interactive shell, reads standard input and is not modelled.\<close>

definition run_script ::
  "'f pynum \<Rightarrow> 'f ext \<Rightarrow> 'f interp \<Rightarrow> ('f interp \<times> pyerr option) option" where
  "run_script fl ext s = run_loop fl ext (s\<lparr>program_counter := 0\<rparr>)"

text \<open>The interpreter as the constructor leaves it.\<close>

definition init :: "string list option \<Rightarrow> 'f interp" where
  "init lines =
     \<lparr>variables = Map.empty, ram = Map.empty, script_lines = lines, program_counter = 0,
      stdout = []\<rparr>"

subsection \<open>Unfolding the loop\<close>

lemma run_step_advance:
  assumes "execute_line fl ext (lines ! program_counter s)
             (emit (Echo (program_counter s + 1) (lines ! program_counter s)) s) = (s', None)"
  shows "run_step fl ext lines s =
           (if program_counter s' = program_counter s
            then s'\<lparr>program_counter := program_counter s + 1\<rparr> else s', None)"
  using assms by (simp add: run_step_def Let_def)

lemma run_step_raise:
  assumes "execute_line fl ext (lines ! program_counter s)
             (emit (Echo (program_counter s + 1) (lines ! program_counter s)) s) = (s', Some e)"
  shows "run_step fl ext lines s = (s', Some e)"
  using assms by (simp add: run_step_def Let_def)

lemma run_loop_halt:
  "script_lines s = Some lines \<Longrightarrow> \<not> program_counter s < length lines
     \<Longrightarrow> run_loop fl ext s = Some (s, None)"
  by (subst run_loop.simps) simp

lemma run_loop_raise:
  "script_lines s = Some lines \<Longrightarrow> program_counter s < length lines
     \<Longrightarrow> run_step fl ext lines s = (s', Some e)
     \<Longrightarrow> run_loop fl ext s = Some (s', Some e)"
  by (subst run_loop.simps) simp

lemma run_loop_step:
  "script_lines s = Some lines \<Longrightarrow> program_counter s < length lines
     \<Longrightarrow> run_step fl ext lines s = (s', None)
     \<Longrightarrow> run_loop fl ext s = run_loop fl ext s'"
  by (subst run_loop.simps) simp

lemma run_loop_normal_exit_aux:
  assumes "run_loop fl ext s = Some r"
  shows "snd r = None \<longrightarrow>
           (\<exists>lines. script_lines (fst r) = Some lines \<and> length lines \<le> program_counter (fst r))"
proof (rule run_loop.raw_induct
    [where P = "\<lambda>fl ext s r. snd r = None \<longrightarrow>
           (\<exists>lines. script_lines (fst r) = Some lines \<and> length lines \<le> program_counter (fst r))",
     OF _ assms])
  fix loop :: "'a pynum \<Rightarrow> 'a ext \<Rightarrow> 'a interp \<Rightarrow> ('a interp \<times> pyerr option) option"
    and fl ext s r
  assume IH: "\<And>fl ext s r. loop fl ext s = Some r \<Longrightarrow> snd r = None \<longrightarrow>
           (\<exists>lines. script_lines (fst r) = Some lines \<and> length lines \<le> program_counter (fst r))"
    and eq: "(case script_lines s of
                None \<Rightarrow> Some (s, Some TypeError)
              | Some lines \<Rightarrow>
                  if program_counter s < length lines
                  then case run_step fl ext lines s of
                         (s', None) \<Rightarrow> loop fl ext s'
                       | (s', Some e) \<Rightarrow> Some (s', Some e)
                  else Some (s, None)) = Some r"
  show "snd r = None \<longrightarrow>
           (\<exists>lines. script_lines (fst r) = Some lines \<and> length lines \<le> program_counter (fst r))"
  proof (cases "script_lines s")
    case None
    with eq show ?thesis by auto
  next
    case (Some lines)
    show ?thesis
    proof (cases "program_counter s < length lines")
      case False
      with eq Some show ?thesis by auto
    next
      case True
      obtain s' e where st: "run_step fl ext lines s = (s', e)" by (cases "run_step fl ext lines s")
      show ?thesis
      proof (cases e)
        case None
        with eq Some True st have "loop fl ext s' = Some r" by simp
        then show ?thesis by (rule IH)
      next
        case (Some x)
        with eq \<open>script_lines s = Some lines\<close> True st show ?thesis by auto
      qed
    qed
  qed
qed

lemma run_loop_normal_exit:
  assumes "run_loop fl ext s = Some (s', None)"
  shows "\<exists>lines. script_lines s' = Some lines \<and> length lines \<le> program_counter s'"
  using run_loop_normal_exit_aux [OF assms] by simp

text \<open>What a finished run shows of itself: the program counter and the exception that
  ended it, if any.\<close>

definition outcome :: "('f interp \<times> pyerr option) option \<Rightarrow> (nat \<times> pyerr option) option" where
  "outcome r = map_option (\<lambda>(s, e). (program_counter s, e)) r"

section \<open>An instance of the number operations\<close>

text \<open>
  For the concrete runs below: decimal literals with an optional sign and an optional
  fraction, read as rationals, with exact arithmetic.  On such literals, and as long as
  the results are numbers that a double represents exactly, these are the values Python
  computes.
\<close>

definition digit_of :: "char \<Rightarrow> nat option" where
  "digit_of c = map_of (zip ''0123456789'' [0, 1, 2, 3, 4, 5, 6, 7, 8, 9]) c"

fun digits_value :: "nat \<Rightarrow> string \<Rightarrow> nat option" where
  "digits_value acc [] = Some acc"
| "digits_value acc (c # cs) =
     (case digit_of c of None \<Rightarrow> None | Some d \<Rightarrow> digits_value (10 * acc + d) cs)"

definition unsigned :: "string \<Rightarrow> bool \<times> string" where
  "unsigned t =
     (case t of
        [] \<Rightarrow> (False, [])
      | c # cs \<Rightarrow> if c = CHR ''-'' then (True, cs)
                  else if c = CHR ''+'' then (False, cs)
                  else (False, t))"

definition int_literal :: "string \<Rightarrow> int option" where
  "int_literal t =
     (case unsigned t of
        (neg, u) \<Rightarrow>
          if u = [] then None
          else map_option (\<lambda>n. if neg then - int n else int n) (digits_value 0 u))"

definition decimal_literal :: "string \<Rightarrow> rat option" where
  "decimal_literal t =
     (case unsigned t of
        (neg, u) \<Rightarrow>
          (case split1 CHR ''.'' u of
             (ip, fp) \<Rightarrow>
               (let f = (case fp of None \<Rightarrow> [] | Some x \<Rightarrow> x)
                in if ip = [] \<and> f = [] then None
                   else (case (digits_value 0 ip, digits_value 0 f) of
                           (Some a, Some b) \<Rightarrow>
                             Some ((if neg then - 1 else 1)
                                   * (of_nat a + of_nat b / 10 ^ length f))
                         | _ \<Rightarrow> None))))"

definition exact :: "rat pynum" where
  "exact =
     \<lparr>float_of_str = decimal_literal,
      int_of_str = int_literal,
      int_of_float = (\<lambda>x. Inr (if 0 \<le> x then \<lfloor>x\<rfloor> else \<lceil>x\<rceil>)),
      fzero = 0, fone = 1,
      fadd = (+), fsub = (-), fmul = (*), fdiv = (/),
      fgt = (\<lambda>x y. x > y), flt = (<), feq = (=)\<rparr>"

text \<open>External handlers that do nothing, for runs that do not call them.\<close>

definition no_ext :: "'f ext" where
  "no_ext handler_name parsed_args s = (s, None)"


text \<open>A state for the concrete runs: \<^verbatim>\<open>X = 5.0\<close>, \<^verbatim>\<open>Y = 3.0\<close>, and a variable whose
  name is the numeral \<^verbatim>\<open>7\<close>.\<close>

definition demo_state :: "rat interp" where
  "demo_state =
     (init None)\<lparr>variables :=
        [Str ''X'' \<mapsto> Num 5, Str ''Y'' \<mapsto> Num 3, Str ''7'' \<mapsto> Str ''seven'']\<rparr>"

text \<open>A two-line script, stopped at its second line.\<close>

definition jump_state :: "rat interp" where
  "jump_state = (init (Some [''PRINT 1 a'', ''JUMP 1'']))\<lparr>program_counter := 1\<rparr>"

section \<open>The value resolver\<close>

lemma upper_NULL_not_digit:
  "upper token = ''NULL'' \<Longrightarrow> token \<noteq> ''0'' \<and> token \<noteq> ''1''"
  by (auto simp: upper_def upper_char_def)

text \<open>
  C8.  \<^verbatim>\<open>parse_value\<close> resolves a token in this order: a token that starts and ends
  with a double quote is its inner text, as a string; otherwise a token that \<^verbatim>\<open>float\<close>
  accepts is that number, whatever the variables hold; the tokens \<^verbatim>\<open>0\<close> and \<^verbatim>\<open>1\<close> are
  the numbers 0.0 and 1.0 in any case; otherwise a token that is \<^verbatim>\<open>NULL\<close> in upper case
  is the null marker, the string \<^verbatim>\<open>"NULL"\<close>; otherwise a bound name is the value bound to
  it; otherwise the token itself is returned as a string.  The function is total: no
  branch raises.
\<close>

theorem parse_value_priority:
  "(startswith token [dq] \<and> endswith token [dq] \<longrightarrow>
       parse_value fl s token = Str (inner token))
   \<and> (\<not> (startswith token [dq] \<and> endswith token [dq]) \<longrightarrow>
        (\<forall>x. float_of_str fl token = Some x \<longrightarrow> parse_value fl s token = Num x)
      \<and> (float_of_str fl token = None \<longrightarrow>
           (token = ''0'' \<longrightarrow> parse_value fl s token = Num (fzero fl))
         \<and> (token = ''1'' \<longrightarrow> parse_value fl s token = Num (fone fl))
         \<and> (upper token = ''NULL'' \<longrightarrow> parse_value fl s token = Str ''NULL'')
         \<and> (token \<noteq> ''0'' \<and> token \<noteq> ''1'' \<and> upper token \<noteq> ''NULL'' \<longrightarrow>
              (\<forall>v. variables s (Str token) = Some v \<longrightarrow> parse_value fl s token = v)
            \<and> (variables s (Str token) = None \<longrightarrow> parse_value fl s token = Str token))))"
  using upper_NULL_not_digit [of token]
  by (auto simp: parse_value_def)

text \<open>
  C8, at concrete tokens: a quoted text, the numeral \<^verbatim>\<open>7\<close> (although a variable of
  that name is bound), \<^verbatim>\<open>null\<close>, the bound name \<^verbatim>\<open>X\<close> and the unbound name \<^verbatim>\<open>Z\<close>.
\<close>

theorem parse_value_priority_witness:
  "parse_value exact demo_state ([dq] @ ''a b'' @ [dq]) = Str ''a b''
   \<and> parse_value exact demo_state ''7'' = Num 7
   \<and> parse_value exact demo_state ''null'' = Str ''NULL''
   \<and> parse_value exact demo_state ''X'' = Num 5
   \<and> parse_value exact demo_state ''Z'' = Str ''Z''"
proof -
  have q: "startswith ([dq] @ ''a b'' @ [dq]) [dq] \<and> endswith ([dq] @ ''a b'' @ [dq]) [dq]"
    by (simp add: startswith_def endswith_def)
  have n: "\<not> (startswith t [dq] \<and> endswith t [dq])" if "hd t \<noteq> dq" "t \<noteq> []" for t
    using that by (cases t) (simp_all add: startswith_def)
  have f7: "float_of_str exact ''7'' = Some 7" by code_simp
  have fn: "float_of_str exact ''null'' = None" by code_simp
  have fx: "float_of_str exact ''X'' = None" by code_simp
  have fz: "float_of_str exact ''Z'' = None" by code_simp
  have un: "upper ''null'' = ''NULL''" by code_simp
  have ux: "upper ''X'' \<noteq> ''NULL''" by code_simp
  have uz: "upper ''Z'' \<noteq> ''NULL''" by code_simp
  have vx: "variables demo_state (Str ''X'') = Some (Num 5)"
    by (simp add: demo_state_def init_def)
  have vz: "variables demo_state (Str ''Z'') = None"
    by (simp add: demo_state_def init_def)
  show ?thesis
    using parse_value_priority [of "[dq] @ ''a b'' @ [dq]" exact demo_state] q
      parse_value_priority [of "''7''" exact demo_state] n [of "''7''"] f7
      parse_value_priority [of "''null''" exact demo_state] n [of "''null''"] fn un
      parse_value_priority [of "''X''" exact demo_state] n [of "''X''"] fx ux vx
      parse_value_priority [of "''Z''" exact demo_state] n [of "''Z''"] fz uz vz
    by (simp add: inner_def)
qed

text \<open>
  C10.  The token that consists of one double quote starts and ends with a double quote:
  \<^verbatim>\<open>parse_value\<close> takes it for a quoted literal and returns the empty string, for every
  state and whatever \<^verbatim>\<open>float\<close> accepts.
\<close>

theorem parse_value_lone_quote: "parse_value fl s [dq] = Str []"
  by (simp add: parse_value_def startswith_def endswith_def inner_def)

section \<open>The tokenizer\<close>

text \<open>
  C7.  Tokenizing the line \<^verbatim>\<open>PRINT 1 "a b \"c\""\<close> yields exactly three tokens:
  \<^verbatim>\<open>PRINT\<close>, \<^verbatim>\<open>1\<close> and the quoted text, which is the nine characters
  \<^verbatim>\<open>"a b "c""\<close> that the token literal of the specification denotes.  The spaces inside
  the quotes do not split, the surrounding quote characters stay in the token, and each
  escaped quote is kept as a quote character; the backslash that escapes it is the escape
  character and is not part of the token.
\<close>

theorem tokenize_escaped_quotes:
  "tokenize (''PRINT 1 '' @ [dq] @ ''a b '' @ [backslash, dq] @ ''c'' @ [backslash, dq, dq])
     = [''PRINT'', ''1'', [dq] @ ''a b '' @ [dq] @ ''c'' @ [dq, dq]]"
  by (simp add: tokenize_def)

section \<open>The comparison handler\<close>

lemma cmp_condition_never_False: "cmp_condition fl condition val1 val2 \<noteq> Some False"
  by (simp add: cmp_condition_def)

text \<open>With \<^verbatim>\<open>ELSE\<close> the sub-script is never run: whatever it is, the outcome is the
  same.\<close>

lemma handle_cmp_ELSE_ignores_script:
  assumes "upper b = ''ELSE''"
  shows "handle_cmp fl ext val1 val2 condition (Str b) script s
           = handle_cmp fl ext val1 val2 condition (Str b) script' s"
  using assms
  by (simp add: handle_cmp.simps [of fl ext val1 val2 condition "Str b" script s]
      handle_cmp.simps [of fl ext val1 val2 condition "Str b" script' s]
      cmp_condition_never_False
      del: execute_line.simps handle_cmp.simps
      split: sum.splits val.splits option.splits)

text \<open>
  C1.  The claim: for \<^verbatim>\<open>IF\<close> with numeric operands and a condition keyword among
  \<^verbatim>\<open>HIGH\<close>, \<^verbatim>\<open>LOW\<close>, \<^verbatim>\<open>EQUAL\<close>, the sub-script runs exactly when the branch is
  \<^verbatim>\<open>THEN\<close> and the condition holds or the branch is \<^verbatim>\<open>ELSE\<close> and it does not, and a
  condition that does not hold is no error.  The code at the inputs of the specification,
  \<^verbatim>\<open>X = 5\<close>, \<^verbatim>\<open>Y = 3\<close>: \<^verbatim>\<open>IF X Y LOW THEN PRINT 1 "yes"\<close> reports ``Invalid condition:
  LOW''; \<^verbatim>\<open>IF X Y LOW ELSE PRINT 1 "no"\<close> reports the same and prints nothing; only
  \<^verbatim>\<open>IF X Y HIGH THEN PRINT 1 "yes"\<close> prints.  The \<^verbatim>\<open>else\<close> of the comparison chain
  catches every keyword whose comparison is false.
\<close>

theorem if_unmet_condition_reported:
  "stdout (fst (execute_line exact no_ext (''IF X Y LOW THEN PRINT 1 '' @ [dq] @ ''yes'' @ [dq]) demo_state))
     = [InvalidCondition ''LOW'']
   \<and> stdout (fst (execute_line exact no_ext (''IF X Y LOW ELSE PRINT 1 '' @ [dq] @ ''no'' @ [dq]) demo_state))
     = [InvalidCondition ''LOW'']
   \<and> stdout (fst (execute_line exact no_ext (''IF X Y HIGH THEN PRINT 1 '' @ [dq] @ ''yes'' @ [dq]) demo_state))
     = [Printed (Str ''yes'')]"
  by code_simp


section \<open>The arithmetic handler\<close>

text \<open>The handler itself, on the arguments it receives.\<close>

lemma handle_arith_Inr:
  assumes "py_float fl a = Inr x" "py_float fl b = Inr y"
  shows "handle_arith fl a b out op s =
           (if op = ''ADD'' then s\<lparr>variables := (variables s)(out \<mapsto> Num (fadd fl x y))\<rparr>
            else if op = ''SUB'' then s\<lparr>variables := (variables s)(out \<mapsto> Num (fsub fl x y))\<rparr>
            else if op = ''MULT'' then s\<lparr>variables := (variables s)(out \<mapsto> Num (fmul fl x y))\<rparr>
            else if op = ''DIV'' then
              (if feq fl y (fzero fl) then emit DivisionByZero s
               else s\<lparr>variables := (variables s)(out \<mapsto> Num (fdiv fl x y))\<rparr>)
            else emit (UnknownOperation op) s)"
  unfolding handle_arith_def Let_def assms sum.case ..

lemma handle_arith_add_numeric:
  assumes "py_float fl a = Inr x" "py_float fl b = Inr y"
  shows "handle_arith_add fl a b out s = s\<lparr>variables := (variables s)(out \<mapsto> Num (fadd fl x y))\<rparr>"
  unfolding handle_arith_add_def handle_arith_Inr [OF assms] by simp

lemma handle_arith_sub_numeric:
  assumes "py_float fl a = Inr x" "py_float fl b = Inr y"
  shows "handle_arith_sub fl a b out s = s\<lparr>variables := (variables s)(out \<mapsto> Num (fsub fl x y))\<rparr>"
  unfolding handle_arith_sub_def handle_arith_Inr [OF assms] by simp

lemma handle_arith_mult_numeric:
  assumes "py_float fl a = Inr x" "py_float fl b = Inr y"
  shows "handle_arith_mult fl a b out s = s\<lparr>variables := (variables s)(out \<mapsto> Num (fmul fl x y))\<rparr>"
  unfolding handle_arith_mult_def handle_arith_Inr [OF assms] by simp

lemma handle_arith_div_numeric:
  assumes "py_float fl a = Inr x" "py_float fl b = Inr y"
  shows "handle_arith_div fl a b out s =
           (if feq fl y (fzero fl) then emit DivisionByZero s
            else s\<lparr>variables := (variables s)(out \<mapsto> Num (fdiv fl x y))\<rparr>)"
  unfolding handle_arith_div_def handle_arith_Inr [OF assms] by simp

lemma handle_arith_non_numeric:
  assumes "py_float fl a = Inl e \<or> py_float fl b = Inl e"
  shows "handle_arith fl a b out op s = emit ArithRequiresNumeric s"
proof (cases "py_float fl a")
  case (Inl e')
  then show ?thesis by (simp add: handle_arith_def)
next
  case (Inr x)
  with assms have "py_float fl b = Inl e" by simp
  with Inr show ?thesis by (simp add: handle_arith_def)
qed

text \<open>
  C9.  The claim: an arithmetic command with two numeric inputs stores its result in the
  output variable.  The code, after the declaration \<^verbatim>\<open><X = 1>\<close>, on the line
  \<^verbatim>\<open>ADD X 1 X\<close>: the dispatcher resolves all three tokens, the handler receives the
  number 1.0 as \<^verbatim>\<open>out\<close> and writes \<^verbatim>\<open>variables[1.0] = 2.0\<close>; \<^verbatim>\<open>X\<close> keeps the value 1.0
  and nothing is reported.
\<close>

theorem arith_output_name_resolved:
  "variables (fst (execute_line exact no_ext ''<X = 1>'' (init None))) (Str ''X'') = Some (Num 1)
   \<and> variables (fst (execute_line exact no_ext ''ADD X 1 X''
         (fst (execute_line exact no_ext ''<X = 1>'' (init None))))) (Str ''X'') = Some (Num 1)
   \<and> variables (fst (execute_line exact no_ext ''ADD X 1 X''
         (fst (execute_line exact no_ext ''<X = 1>'' (init None))))) (Num 1) = Some (Num 2)
   \<and> stdout (fst (execute_line exact no_ext ''ADD X 1 X''
         (fst (execute_line exact no_ext ''<X = 1>'' (init None))))) = []"
  by code_simp


section \<open>The script loop\<close>

text \<open>
  C4.  The claim: each step executes the line at the program counter and then advances or
  keeps the counter a handler has set, and the loop halts exactly when the counter leaves
  the script.  The code on the one-line script \<^verbatim>\<open>PRINT\<close>: the argument shaping reads
  \<^verbatim>\<open>raw_args[0]\<close> outside the \<^verbatim>\<open>try\<close>, the \<^verbatim>\<open>IndexError\<close> leaves \<^verbatim>\<open>execute_line\<close> and
  \<^verbatim>\<open>run\<close>, and the run ends with the program counter still at 0, inside the script.
\<close>

theorem run_aborted_by_shaping_error:
  "outcome (run_script exact no_ext (init (Some [''PRINT'']))) = Some (0, Some IndexError)"
proof -
  have a: "snd (run_step exact no_ext [''PRINT''] ((init (Some [''PRINT'']))\<lparr>program_counter := 0\<rparr>)) = Some IndexError"
    by code_simp
  have b: "program_counter (fst (run_step exact no_ext [''PRINT''] ((init (Some [''PRINT'']))\<lparr>program_counter := 0\<rparr>))) = 0"
    by code_simp
  have "run_loop exact no_ext ((init (Some [''PRINT'']))\<lparr>program_counter := 0\<rparr>)
      = Some (fst (run_step exact no_ext [''PRINT''] ((init (Some [''PRINT'']))\<lparr>program_counter := 0\<rparr>)), Some IndexError)"
    by (rule run_loop_raise [where lines = "[''PRINT'']"]) (simp_all add: init_def a [symmetric])
  then show ?thesis
    by (simp add: outcome_def run_script_def b)
qed



section \<open>The dispatcher\<close>

text \<open>Every command of the registry has a handler of the handler table, and no command
  name starts with \<^verbatim>\<open><\<close>: a line whose first token is a known command is not a
  declaration.\<close>

lemma registry_handlers:
  assumes "map_of parse_SPiD_definition cmd = Some d"
  shows "\<exists>h. handler d = Some h \<and> h \<noteq> [] \<and> h \<in> set handlers"
  using assms unfolding parse_SPiD_definition_registry registry_def handlers_def
  by (auto split: if_splits)

lemma registry_no_bracket: "map_of parse_SPiD_definition (CHR ''<'' # t) = None"
  unfolding parse_SPiD_definition_registry registry_def by simp

lemma registry_PRINT:
  "map_of parse_SPiD_definition ''PRINT'' = Some d \<Longrightarrow> arg_count d = 2"
  unfolding parse_SPiD_definition_registry registry_def by auto

lemma registry_JUMP:
  "map_of parse_SPiD_definition ''JUMP''
     = Some \<lparr>pattern = ''(VAR,VAL)'', handler = Some ''JUMP_CMD'', arg_count = 1\<rparr>"
  unfolding parse_SPiD_definition_registry registry_def by simp

lemma tokenize_loop_hd:
  "ts \<noteq> [] \<Longrightarrow> tokenize_loop l ts cur q e \<noteq> [] \<and> hd (tokenize_loop l ts cur q e) = hd ts"
proof (induction l arbitrary: ts cur q e)
  case Nil
  then show ?case by simp
next
  case (Cons c l)
  have a: "tokenize_loop l ts cur' q' e' \<noteq> [] \<and> hd (tokenize_loop l ts cur' q' e') = hd ts"
    for cur' q' e' using Cons.IH [of ts cur' q' e'] Cons.prems by simp
  have d: "tokenize_loop l (ts @ [cur]) [] q' e' \<noteq> []
           \<and> hd (tokenize_loop l (ts @ [cur]) [] q' e') = hd ts" for q' e'
    using Cons.IH [of "ts @ [cur]" "[]" q' e'] Cons.prems by simp
  show ?case
    unfolding tokenize_loop.simps using a d by presburger
qed

lemma tokenize_loop_cur:
  "cur \<noteq> [] \<Longrightarrow> tokenize_loop l [] cur q e \<noteq> [] \<and> hd (hd (tokenize_loop l [] cur q e)) = hd cur"
proof (induction l arbitrary: cur q e)
  case Nil
  then show ?case by simp
next
  case (Cons c l)
  have a: "tokenize_loop l [] (cur @ [c]) q' e' \<noteq> []
           \<and> hd (hd (tokenize_loop l [] (cur @ [c]) q' e')) = hd cur" for q' e'
    using Cons.IH [of "cur @ [c]" q' e'] Cons.prems by simp
  have b: "tokenize_loop l [] cur q' e' \<noteq> [] \<and> hd (hd (tokenize_loop l [] cur q' e')) = hd cur"
    for q' e' using Cons.IH [of cur q' e'] Cons.prems by simp
  have d: "tokenize_loop l ([] @ [cur]) [] q' e' \<noteq> []
           \<and> hd (hd (tokenize_loop l ([] @ [cur]) [] q' e')) = hd cur" for q' e'
    using tokenize_loop_hd [of "[] @ [cur]" l "[]" q' e'] by simp
  show ?case
    unfolding tokenize_loop.simps using a b d Cons.prems by presburger
qed

lemma known_not_declaration:
  assumes tok: "tokenize l = tok # raw_args"
    and known: "map_of parse_SPiD_definition (upper tok) = Some d"
  shows "\<not> startswith l ''<''"
proof
  assume "startswith l ''<''"
  then obtain rest where l: "l = CHR ''<'' # rest"
    by (cases l) (simp_all add: startswith_def)
  have "tokenize l = tokenize_loop rest [] ''<'' False False"
    by (simp add: l tokenize_def)
  then have "hd (hd (tokenize l)) = CHR ''<''"
    using tokenize_loop_cur [of "''<''" rest False False] by simp
  moreover have "tok \<noteq> []" using tokenize_nonempty [of l] tok by auto
  ultimately obtain t where "tok = CHR ''<'' # t"
    using tok by (cases tok) simp_all
  then have "upper tok = CHR ''<'' # upper t"
    by (simp add: upper_def upper_char_def)
  with known registry_no_bracket show False by simp
qed

lemma shape_args_state:
  assumes "shape_args fl cmd n raw_args s = Inr (s', parsed_args)"
  shows "s' = s \<or> (cmd = ''PRINT'' \<and> length parsed_args = 2)"
proof (cases "cmd = ''PRINT''")
  case True
  with assms show ?thesis
    by (auto simp: shape_args_def split: sum.splits if_splits)
next
  case False
  with assms show ?thesis
    by (auto simp: shape_args_def split: sum.splits if_splits)
qed

lemma dispatch_command:
  assumes tok: "tokenize (strip line) = tok # raw_args"
    and known: "map_of parse_SPiD_definition (upper tok) = Some command_def"
  shows "\<exists>h. handler command_def = Some h \<and>
           dispatch fl line s =
             (case shape_args fl (upper tok) (arg_count command_def) raw_args s of
                Inl e \<Rightarrow> Return s (Some e)
              | Inr (s', parsed_args) \<Rightarrow>
                  if length parsed_args \<noteq> arg_count command_def
                  then Return (emit (ArgumentCountError (upper tok) (arg_count command_def)
                                       (length parsed_args)) s') None
                  else Invoke (upper tok) h parsed_args s')"
proof -
  obtain h where h: "handler command_def = Some h" "h \<noteq> []" "h \<in> set handlers"
    using registry_handlers [OF known] by blast
  have nd: "\<not> startswith (strip line) ''<''"
    by (rule known_not_declaration [OF tok known])
  have ne: "strip line \<noteq> []" using tok by (auto simp: tokenize_def)
  show ?thesis
    unfolding dispatch_def Let_def using h nd ne tok known
    by (simp split: sum.splits prod.splits)
qed



text \<open>
  C2.  A line whose first token names a known command and whose shaped argument list has
  a length other than the command's \<^verbatim>\<open>arg_count\<close>: the dispatcher returns without
  invoking a handler, the only effect is the report of the argument count (expected and
  received), nothing is raised, and in script mode the engine goes on to the next line.
  Whenever the dispatcher does invoke a handler, the number of arguments is the
  \<^verbatim>\<open>arg_count\<close> of the command.
\<close>

theorem arity_mismatch_reported:
  assumes tok: "tokenize (strip line) = tok # raw_args"
    and known: "map_of parse_SPiD_definition (upper tok) = Some command_def"
    and shaped: "shape_args fl (upper tok) (arg_count command_def) raw_args s = Inr (s', parsed_args)"
    and mismatch: "length parsed_args \<noteq> arg_count command_def"
  shows "dispatch fl line s
           = Return (emit (ArgumentCountError (upper tok) (arg_count command_def)
                             (length parsed_args)) s) None
       \<and> execute_line fl ext line s
           = (emit (ArgumentCountError (upper tok) (arg_count command_def)
                      (length parsed_args)) s, None)
       \<and> (\<forall>lines s0. script_lines s0 = Some lines \<and> program_counter s0 < length lines
             \<and> lines ! program_counter s0 = line
             \<and> s = emit (Echo (program_counter s0 + 1) line) s0 \<longrightarrow>
           run_step fl ext lines s0
             = ((emit (ArgumentCountError (upper tok) (arg_count command_def)
                         (length parsed_args)) s)\<lparr>program_counter := program_counter s0 + 1\<rparr>,
                None))
       \<and> (\<forall>line' s1 cmd h args s2. dispatch fl line' s1 = Invoke cmd h args s2 \<longrightarrow>
             (\<exists>d. map_of parse_SPiD_definition cmd = Some d \<and> handler d = Some h
                  \<and> length args = arg_count d))"
proof -
  let ?r = "emit (ArgumentCountError (upper tok) (arg_count command_def) (length parsed_args)) s"
  have same: "s' = s"
  proof (rule ccontr)
    assume "s' \<noteq> s"
    with shape_args_state [OF shaped] have "upper tok = ''PRINT''" "length parsed_args = 2"
      by simp_all
    with known mismatch registry_PRINT [of command_def] show False by simp
  qed
  have d: "dispatch fl line s = Return ?r None"
    using dispatch_command [OF tok known, of fl s] shaped mismatch same by auto
  then have e: "execute_line fl ext line s = (?r, None)"
    by (simp add: execute_line.simps [of fl ext line s] del: execute_line.simps)
  have r: "run_step fl ext lines s0 = (?r\<lparr>program_counter := program_counter s0 + 1\<rparr>, None)"
    if "lines ! program_counter s0 = line" "s = emit (Echo (program_counter s0 + 1) line) s0"
    for lines s0
  proof -
    have "execute_line fl ext (lines ! program_counter s0)
            (emit (Echo (program_counter s0 + 1) (lines ! program_counter s0)) s0) = (?r, None)"
      using e that by simp
    moreover have "program_counter ?r = program_counter s0"
      using that by (simp add: emit_def)
    ultimately show ?thesis
      using run_step_advance [of fl ext lines s0 ?r] by simp
  qed
  have i: "\<exists>d. map_of parse_SPiD_definition cmd = Some d \<and> handler d = Some h
                \<and> length args = arg_count d"
    if "dispatch fl line' s1 = Invoke cmd h args s2" for line' s1 cmd h args s2
    using dispatch_Invoke [OF that] by blast
  show ?thesis using d e r i by blast
qed


text \<open>C2, at the line \<^verbatim>\<open>ADD 1 2\<close>: two arguments for a command of three.\<close>

theorem arity_mismatch_reported_witness:
  "tokenize (strip ''ADD 1 2'') = ''ADD'' # [''1'', ''2'']
   \<and> shape_args exact (upper ''ADD'') 3 [''1'', ''2''] demo_state = Inr (demo_state, [Num 1, Num 2])
   \<and> length [Num (1::rat), Num 2] \<noteq> 3
   \<and> execute_line exact no_ext ''ADD 1 2'' demo_state
        = (emit (ArgumentCountError ''ADD'' 3 2) demo_state, None)"
proof -
  have u: "upper ''ADD'' = ''ADD''" by code_simp
  have tok: "tokenize (strip ''ADD 1 2'') = ''ADD'' # [''1'', ''2'']" by code_simp
  have known: "map_of parse_SPiD_definition (upper ''ADD'')
      = Some \<lparr>pattern = ''(VAR,VAL) (VAR,VAL) (VAR)'', handler = Some ''ARITH_ADD'', arg_count = 3\<rparr>"
    unfolding u parse_SPiD_definition_registry registry_def by simp
  have p1: "parse_value exact demo_state ''1'' = Num 1" by code_simp
  have p2: "parse_value exact demo_state ''2'' = Num 2" by code_simp
  have shaped: "shape_args exact (upper ''ADD'') 3 [''1'', ''2''] demo_state
      = Inr (demo_state, [Num 1, Num 2])"
    unfolding u by (simp add: shape_args_def p1 p2)
  show ?thesis
    using arity_mismatch_reported [of "''ADD 1 2''" "''ADD''" "[''1'', ''2'']"
        "\<lparr>pattern = ''(VAR,VAL) (VAR,VAL) (VAR)'', handler = Some ''ARITH_ADD'', arg_count = 3\<rparr>"
        exact demo_state demo_state "[Num 1, Num 2]" no_ext]
      tok known shaped u
    by (simp add: numeral_2_eq_2)
qed


section \<open>The jump handler\<close>

lemma parse_value_emit: "parse_value fl (emit e s) tok = parse_value fl s tok"
  by (auto simp: parse_value_def emit_def split: option.splits)

lemma execute_line_JUMP:
  assumes tok: "tokenize (strip line) = [j, target]" and j: "upper j = ''JUMP''"
  shows "execute_line fl ext line s = (handle_jump fl (parse_value fl s target) s, None)"
proof -
  have sh: "shape_args fl ''JUMP'' 1 [target] s = Inr (s, [parse_value fl s target])"
    by (simp add: shape_args_def)
  have "dispatch fl line s = Invoke ''JUMP'' ''JUMP_CMD'' [parse_value fl s target] s"
    using dispatch_command [OF tok, of _ fl s] registry_JUMP sh j by simp
  then show ?thesis
    by (simp add: execute_line.simps [of fl ext line s] call_handler_def catch_handler_def
        del: execute_line.simps)
qed

lemma handle_jump_ok:
  assumes "py_int fl target = Inr t" "script_lines s = Some lines"
    "0 \<le> t - 1" "t - 1 < int (length lines)"
  shows "handle_jump fl target s = s\<lparr>program_counter := nat (t - 1)\<rparr>"
  using assms by (simp add: handle_jump_def)

lemma handle_jump_not_converted:
  assumes "py_int fl target = Inl e"
  shows "handle_jump fl target s
           = emit (if e = ValueError then JumpInvalid target else JumpError e) s"
  using assms by (simp add: handle_jump_def)

lemma handle_jump_no_script:
  assumes "py_int fl target = Inr t" "script_lines s = None"
  shows "handle_jump fl target s = emit JumpNoScript s"
  using assms by (simp add: handle_jump_def)

lemma handle_jump_out_of_bounds:
  assumes "py_int fl target = Inr t" "script_lines s = Some lines"
    "\<not> (0 \<le> t - 1 \<and> t - 1 < int (length lines))"
  shows "handle_jump fl target s = emit (JumpOutOfBounds t) s"
  using assms by (auto simp: handle_jump_def Let_def)

lemma run_step_JUMP:
  assumes sl: "script_lines s = Some lines" and p: "program_counter s < length lines"
    and tok: "tokenize (strip (lines ! program_counter s)) = [j, target]"
    and j: "upper j = ''JUMP''"
  shows "snd (run_step fl ext lines s) = None
       \<and> program_counter (fst (run_step fl ext lines s))
           = (case py_int fl (parse_value fl s target) of
                Inl e \<Rightarrow> program_counter s + 1
              | Inr t \<Rightarrow>
                  if 0 \<le> t - 1 \<and> t - 1 < int (length lines) \<and> nat (t - 1) \<noteq> program_counter s
                  then nat (t - 1) else program_counter s + 1)"
proof -
  let ?s1 = "emit (Echo (program_counter s + 1) (lines ! program_counter s)) s"
  let ?v = "parse_value fl s target"
  have ex: "execute_line fl ext (lines ! program_counter s) ?s1 = (handle_jump fl ?v ?s1, None)"
    using execute_line_JUMP [OF tok j, of fl ext ?s1] by (simp add: parse_value_emit)
  note st = run_step_advance [OF ex]
  have s1: "script_lines ?s1 = Some lines" "program_counter ?s1 = program_counter s"
    using sl by (simp_all add: emit_def)
  show ?thesis
  proof (cases "py_int fl ?v")
    case (Inl e)
    then have "program_counter (handle_jump fl ?v ?s1) = program_counter s"
      by (simp add: handle_jump_def emit_def)
    then show ?thesis using st Inl by simp
  next
    case (Inr t)
    show ?thesis
    proof (cases "0 \<le> t - 1 \<and> t - 1 < int (length lines)")
      case True
      then have "handle_jump fl ?v ?s1 = ?s1\<lparr>program_counter := nat (t - 1)\<rparr>"
        using handle_jump_ok [OF Inr s1(1)] by simp
      then show ?thesis using st Inr True by (simp add: emit_def)
    next
      case False
      then have "program_counter (handle_jump fl ?v ?s1) = program_counter s"
        using Inr s1 by (auto simp: handle_jump_def emit_def Let_def)
      then show ?thesis using st Inr False by auto
    qed
  qed
qed


text \<open>
  C3, as stated: \<^verbatim>\<open>JUMP 1\<close> executed from any position makes the next step execute
  the first line.  At the first line itself it does not: the handler sets the program
  counter to 0, which is its value before the step, and the engine advances it to 1.
\<close>

theorem jump_to_own_line_falls_through:
  "program_counter (fst (run_step exact no_ext [''JUMP 1'', ''PRINT 1 a'']
      (init (Some [''JUMP 1'', ''PRINT 1 a''])))) = 1"
  by code_simp


text \<open>
  C3, amended.  The jump handler, on a target that \<^verbatim>\<open>int\<close> converts to \<open>t\<close>, with a
  script loaded and \<open>0 \<le> t - 1 < len(script_lines)\<close>, sets the program counter to
  \<open>t - 1\<close> and changes nothing else.  Otherwise it prints one error report and changes
  nothing else, so the program counter keeps its value: ``Invalid line number'' when
  \<^verbatim>\<open>int\<close> raises \<^verbatim>\<open>ValueError\<close> (``JUMP error'' with the exception for any other
  exception of \<^verbatim>\<open>int\<close>), ``only valid when running a script'' when the target converts
  and no script is loaded, ``Target line t is out of bounds'' when \<open>t - 1\<close> is out of
  range.  In the loop, a step on a line \<^verbatim>\<open>JUMP tok\<close> raises nothing and leaves the
  program counter at \<open>t - 1\<close> when the jump succeeds and \<open>t - 1\<close> is not the line of the
  \<^verbatim>\<open>JUMP\<close> itself, and one past the \<^verbatim>\<open>JUMP\<close> otherwise (after an error, and after a
  jump to its own line).  So \<^verbatim>\<open>JUMP 1\<close> executed from any position but the first makes
  the next step execute the first line.
\<close>

theorem jump_semantics:
  "(\<forall>t lines. py_int fl target = Inr t \<and> script_lines s = Some lines
        \<and> 0 \<le> t - 1 \<and> t - 1 < int (length lines) \<longrightarrow>
      handle_jump fl target s = s\<lparr>program_counter := nat (t - 1)\<rparr>)
   \<and> (\<forall>e. py_int fl target = Inl e \<longrightarrow>
      handle_jump fl target s
        = emit (if e = ValueError then JumpInvalid target else JumpError e) s)
   \<and> (\<forall>t. py_int fl target = Inr t \<and> script_lines s = None \<longrightarrow>
      handle_jump fl target s = emit JumpNoScript s)
   \<and> (\<forall>t lines. py_int fl target = Inr t \<and> script_lines s = Some lines
        \<and> \<not> (0 \<le> t - 1 \<and> t - 1 < int (length lines)) \<longrightarrow>
      handle_jump fl target s = emit (JumpOutOfBounds t) s)
   \<and> (\<forall>r. program_counter (emit r s) = program_counter s \<and> variables (emit r s) = variables s
        \<and> script_lines (emit r s) = script_lines s \<and> stdout (emit r s) = stdout s @ [r])
   \<and> (\<forall>lines j tok. script_lines s = Some lines \<and> program_counter s < length lines
        \<and> tokenize (strip (lines ! program_counter s)) = [j, tok] \<and> upper j = ''JUMP'' \<longrightarrow>
      snd (run_step fl ext lines s) = None
      \<and> program_counter (fst (run_step fl ext lines s))
          = (case py_int fl (parse_value fl s tok) of
               Inl e \<Rightarrow> program_counter s + 1
             | Inr t \<Rightarrow>
                 if 0 \<le> t - 1 \<and> t - 1 < int (length lines) \<and> nat (t - 1) \<noteq> program_counter s
                 then nat (t - 1) else program_counter s + 1))"
proof -
  have e: "program_counter (emit r s) = program_counter s \<and> variables (emit r s) = variables s
        \<and> script_lines (emit r s) = script_lines s \<and> stdout (emit r s) = stdout s @ [r]" for r
    by (simp add: emit_def)
  show ?thesis
    using handle_jump_ok [of fl target _ s] handle_jump_not_converted [of fl target _ s]
      handle_jump_no_script [of fl target _ s] handle_jump_out_of_bounds [of fl target _ s]
      run_step_JUMP [of s _ _ _ fl ext] e
    by blast
qed

text \<open>C3, amended, on the script \<^verbatim>\<open>PRINT 1 a\<close>, \<^verbatim>\<open>JUMP 1\<close> stopped at its second line:
  a jump to line 2, a target that is no number, a jump to line 999, a jump with no script
  loaded, and the step on \<^verbatim>\<open>JUMP 1\<close>.\<close>

theorem jump_semantics_witness:
  "handle_jump exact (Num 2) jump_state = jump_state\<lparr>program_counter := 1\<rparr>
   \<and> handle_jump exact (Str ''x'') jump_state = emit (JumpInvalid (Str ''x'')) jump_state
   \<and> handle_jump exact (Num 999) jump_state = emit (JumpOutOfBounds 999) jump_state
   \<and> handle_jump exact (Num 2) demo_state = emit JumpNoScript demo_state
   \<and> program_counter (emit JumpNoScript demo_state) = program_counter demo_state
   \<and> snd (run_step exact no_ext [''PRINT 1 a'', ''JUMP 1''] jump_state) = None
   \<and> program_counter (fst (run_step exact no_ext [''PRINT 1 a'', ''JUMP 1''] jump_state)) = 0"
proof -
  have sl: "script_lines jump_state = Some [''PRINT 1 a'', ''JUMP 1'']"
    and pc: "program_counter jump_state = 1"
    by (simp_all add: jump_state_def init_def)
  have sn: "script_lines demo_state = None"
    by (simp add: demo_state_def init_def)
  have i2: "py_int exact (Num 2) = Inr 2" by (simp add: py_int_def exact_def)
  have i9: "py_int exact (Num 999) = Inr 999" by (simp add: py_int_def exact_def)
  have ix: "py_int exact (Str ''x'') = Inl ValueError" by code_simp
  have tok: "tokenize (strip ([''PRINT 1 a'', ''JUMP 1''] ! program_counter jump_state))
               = [''JUMP'', ''1'']"
    unfolding pc by code_simp
  have u: "upper ''JUMP'' = ''JUMP''" by code_simp
  have i1: "py_int exact (parse_value exact jump_state ''1'') = Inr 1" by code_simp
  note j2 = jump_semantics [of exact "Num 2" jump_state no_ext]
  note jx = jump_semantics [of exact "Str ''x''" jump_state no_ext]
  note j9 = jump_semantics [of exact "Num 999" jump_state no_ext]
  note jn = jump_semantics [of exact "Num 2" demo_state no_ext]
  have a: "handle_jump exact (Num 2) jump_state = jump_state\<lparr>program_counter := nat (2 - 1)\<rparr>"
    using j2 [THEN conjunct1, rule_format, of 2 "[''PRINT 1 a'', ''JUMP 1'']"] i2 sl
    by simp
  have b: "handle_jump exact (Str ''x'') jump_state = emit (JumpInvalid (Str ''x'')) jump_state"
    using jx [THEN conjunct2, THEN conjunct1, rule_format, of ValueError] ix by simp
  have d: "handle_jump exact (Num 999) jump_state = emit (JumpOutOfBounds 999) jump_state"
    using j9 [THEN conjunct2, THEN conjunct2, THEN conjunct2, THEN conjunct1, rule_format,
        of 999 "[''PRINT 1 a'', ''JUMP 1'']"] i9 sl
    by simp
  have n: "handle_jump exact (Num 2) demo_state = emit JumpNoScript demo_state"
    using jn [THEN conjunct2, THEN conjunct2, THEN conjunct1, rule_format, of 2] i2 sn
    by simp
  have k: "program_counter (emit JumpNoScript demo_state) = program_counter demo_state"
    using jn [THEN conjunct2, THEN conjunct2, THEN conjunct2, THEN conjunct2, THEN conjunct1,
        rule_format, of JumpNoScript]
    by simp
  have c: "snd (run_step exact no_ext [''PRINT 1 a'', ''JUMP 1''] jump_state) = None
      \<and> program_counter (fst (run_step exact no_ext [''PRINT 1 a'', ''JUMP 1''] jump_state))
          = (case py_int exact (parse_value exact jump_state ''1'') of
               Inl e \<Rightarrow> program_counter jump_state + 1
             | Inr t \<Rightarrow>
                 if 0 \<le> t - 1 \<and> t - 1 < int (length [''PRINT 1 a'', ''JUMP 1''])
                    \<and> nat (t - 1) \<noteq> program_counter jump_state
                 then nat (t - 1) else program_counter jump_state + 1)"
    using j2 [THEN conjunct2, THEN conjunct2, THEN conjunct2, THEN conjunct2, THEN conjunct2,
        rule_format, of "[''PRINT 1 a'', ''JUMP 1'']" "''JUMP''" "''1''"] sl pc tok u
    by simp
  show ?thesis using a b d n k c by (simp add: i1 pc)
qed


section \<open>The command registry\<close>


lemma count_groups_space: "count_groups (CHR '' '' # r) = count_groups r"
  by simp
















section \<open>Comments\<close>













end
